theory Spec2Isabelle
  imports Main "HOL-Library.Sublist"
begin

section \<open>The matcher extensions of \<^verbatim>\<open>js-api-spec/utils.ts\<close>\<close>

subsection \<open>JavaScript values as the matchers observe them\<close>

text \<open>
  The matchers receive values of type \<^verbatim>\<open>unknown\<close>. The model keeps of each value
  what the code reads from it: its dynamic class (\<^verbatim>\<open>instanceof\<close>), the fields it
  dereferences, and the text that a template literal \<^verbatim>\<open>${...}\<close> renders it to.
  An optional field (\<^verbatim>\<open>line?: number\<close>) is an \<open>option\<close>, \<open>None\<close> standing for
  \<^verbatim>\<open>undefined\<close>. Line numbers are integers.
\<close>

text \<open>The \<^verbatim>\<open>url\<close> option has type \<^verbatim>\<open>string | URL\<close>; a \<^verbatim>\<open>URL\<close> object carries its href.\<close>

datatype url_arg = UrlString string | UrlObject string

record ToThrowSassExceptionOptions =
  line :: "int option"
  url :: "url_arg option"
  noUrl :: "bool option"

record SourceLocation =
  loc_line :: int
  loc_column :: int

text \<open>\<^verbatim>\<open>span.url\<close> is a \<^verbatim>\<open>URL\<close> object or undefined; the model stores its href.\<close>

record SourceSpan =
  span_url :: "string option"
  span_start :: "SourceLocation option"

record sass_Exception =
  span :: SourceSpan
  sassMessage :: "string option"
  sassStack :: "string option"
  exception_text :: string

text \<open>
  A thrown value is an instance of \<^verbatim>\<open>sass.Exception\<close> or anything else; of the latter
  only its rendering is read.
\<close>

datatype js_thrown = SassException sass_Exception | OtherThrown string

record SyncExpectationResult =
  pass :: bool
  message :: string

subsection \<open>Truthiness, string conversion\<close>

definition truthy_string :: "string \<Rightarrow> bool" where
  "truthy_string s = (s \<noteq> [])"

fun truthy_url :: "url_arg option \<Rightarrow> bool" where
  "truthy_url None = False"
| "truthy_url (Some (UrlString s)) = truthy_string s"
| "truthy_url (Some (UrlObject h)) = True"

fun truthy_number :: "int option \<Rightarrow> bool" where
  "truthy_number None = False"
| "truthy_number (Some n) = (n \<noteq> 0)"

fun truthy_bool :: "bool option \<Rightarrow> bool" where
  "truthy_bool None = False"
| "truthy_bool (Some b) = b"

fun truthy_field :: "string option \<Rightarrow> bool" where
  "truthy_field None = False"
| "truthy_field (Some s) = truthy_string s"

fun url_toString :: "url_arg \<Rightarrow> string" where
  "url_toString (UrlString s) = s"
| "url_toString (UrlObject h) = h"

definition digit_char :: "nat \<Rightarrow> char" where
  "digit_char d = ''0123456789'' ! (d mod 10)"

function show_nat :: "nat \<Rightarrow> string" where
  "show_nat n = (if n < 10 then [digit_char n] else show_nat (n div 10) @ [digit_char n])"
  by pat_completeness auto
termination
  by (relation "measure (\<lambda>n. n)") auto

definition show_int :: "int \<Rightarrow> string" where
  "show_int i = (if i < 0 then ''-'' @ show_nat (nat (- i)) else show_nat (nat i))"

text \<open>Rendering of optional values inside a template literal.\<close>

fun show_opt_url :: "url_arg option \<Rightarrow> string" where
  "show_opt_url None = ''undefined''"
| "show_opt_url (Some u) = url_toString u"

fun show_opt_string :: "string option \<Rightarrow> string" where
  "show_opt_string None = ''undefined''"
| "show_opt_string (Some s) = s"

fun show_opt_int :: "int option \<Rightarrow> string" where
  "show_opt_int None = ''undefined''"
| "show_opt_int (Some n) = show_int n"

definition newline :: string where
  "newline = [CHR 0x0A]"

text \<open>\<^verbatim>\<open>thrown.span.start?.line\<close>\<close>

definition start_line :: "sass_Exception \<Rightarrow> int option" where
  "start_line e = map_option loc_line (span_start (span e))"

subsection \<open>\<^verbatim>\<open>verifyThrown\<close>\<close>

definition failing :: "string \<Rightarrow> SyncExpectationResult" where
  "failing m = \<lparr>pass = False, message = m\<rparr>"

definition passing :: "string \<Rightarrow> SyncExpectationResult" where
  "passing m = \<lparr>pass = True, message = m\<rparr>"

fun verifyThrown :: "js_thrown \<Rightarrow> ToThrowSassExceptionOptions \<Rightarrow> SyncExpectationResult" where
  "verifyThrown (OtherThrown shown) opts =
     failing (''expected '' @ shown @ '' to be a sass.Exception'')"
| "verifyThrown (SassException thrown) opts =
     (if truthy_url (url opts) \<and> span_url (span thrown) \<noteq> Some (show_opt_url (url opts)) then
        failing (''expected '' @ show_opt_url (url opts) @ '', was ''
                 @ show_opt_string (span_url (span thrown)) @ '':'' @ newline
                 @ exception_text thrown)
      else if truthy_bool (noUrl opts) \<and> span_url (span thrown) \<noteq> None then
        failing (''expected no URL:'' @ newline @ exception_text thrown)
      else if truthy_number (line opts) \<and> start_line thrown \<noteq> line opts then
        failing (''expected to start on line '' @ show_opt_int (line opts) @ '', was ''
                 @ show_opt_int (start_line thrown) @ '':'' @ newline
                 @ exception_text thrown)
      else if \<not> truthy_field (sassMessage thrown) then
        failing (''expected a sassMessage field:'' @ newline @ exception_text thrown)
      else if \<not> truthy_field (sassStack thrown) then
        failing (''expected a sassStack field:'' @ newline @ exception_text thrown)
      else if truthy_url (url opts) then
        passing (''expected not '' @ show_opt_url (url opts) @ '':'' @ newline
                 @ exception_text thrown)
      else if truthy_bool (noUrl opts) then
        passing (''expected a URL:'' @ newline @ exception_text thrown)
      else if truthy_number (line opts) then
        passing (''expected not to start on line '' @ show_opt_int (line opts) @ '':''
                 @ newline @ exception_text thrown)
      else
        passing (''expected not to throw a sass.Exception:'' @ newline
                 @ exception_text thrown))"

subsection \<open>\<^verbatim>\<open>toThrowSassException\<close>\<close>

text \<open>
  A promise is observed when it settles: fulfilled with a value, rejected with a thrown
  value, or never. \<^verbatim>\<open>p.then(f, g)\<close> with handlers that do not throw is fulfilled with
  the handler's result.
\<close>

datatype 'v promise = Fulfilled 'v | Rejected js_thrown | Pending

fun then_promise :: "'v promise \<Rightarrow> ('v \<Rightarrow> 'w) \<Rightarrow> (js_thrown \<Rightarrow> 'w) \<Rightarrow> 'w promise" where
  "then_promise (Fulfilled v) on_fulfilled on_rejected = Fulfilled (on_fulfilled v)"
| "then_promise (Rejected thrown) on_fulfilled on_rejected = Fulfilled (on_rejected thrown)"
| "then_promise Pending on_fulfilled on_rejected = Pending"

text \<open>
  What calling the zero-argument callback does: it returns a value that is not a
  promise, returns a promise, or throws.
\<close>

datatype 'v call_outcome = Returns 'v | ReturnsPromise "'v promise" | Throws js_thrown

text \<open>
  The received value: not a function, or a function with its source text (what
  \<^verbatim>\<open>${received}\<close> renders) and the outcome of calling it.
\<close>

datatype 'v js_received = NotAFunction | Function string "'v call_outcome"

datatype js_error = Error string

datatype matcher_result =
  Sync SyncExpectationResult
| Async "SyncExpectationResult promise"

fun toThrowSassException ::
  "'v js_received \<Rightarrow> ToThrowSassExceptionOptions \<Rightarrow> js_error + matcher_result" where
  "toThrowSassException NotAFunction options =
     Inl (Error ''Received value must be a function'')"
| "toThrowSassException (Function received (ReturnsPromise result)) options =
     Inr (Async (then_promise result
            (\<lambda>_. failing (''expected '' @ received @ '' to throw''))
            (\<lambda>thrown. verifyThrown thrown options)))"
| "toThrowSassException (Function received (Throws thrown)) options =
     Inr (Sync (verifyThrown thrown options))"
| "toThrowSassException (Function received (Returns result)) options =
     Inr (Sync (failing (''expected '' @ received @ '' to throw'')))"

subsection \<open>\<^verbatim>\<open>toEqualWithHash\<close>\<close>

text \<open>
  A property of the received object as the matcher tests it: absent
  (\<^verbatim>\<open>!('equals' in received)\<close>), present but not a function, or a method.
\<close>

datatype 'f member = Absent | NotFunction | Method 'f

text \<open>
  The reference value (an \<^verbatim>\<open>immutable.ValueObject\<close>): the result of its
  \<^verbatim>\<open>hashCode()\<close> and its rendering.
\<close>

record ValueObject =
  hashCode :: int
  value_text :: string

text \<open>
  The received value. \<open>NotObject\<close> covers \<^verbatim>\<open>typeof received !== 'object'\<close>; every value
  carries its \<^verbatim>\<open>util.inspect\<close> text, an object also its \<^verbatim>\<open>${received}\<close> text, its
  \<^verbatim>\<open>equals\<close> member (a predicate on the reference) and its \<^verbatim>\<open>hashCode\<close> member (the
  number the method returns).
\<close>

datatype 'r js_value =
  NotObject string
| Null
| Object (inspected: string) (rendered: string)
    (equals_member: "('r \<Rightarrow> bool) member") (hashCode_member: "int member")

fun inspect :: "'r js_value \<Rightarrow> string" where
  "inspect (NotObject shown) = shown"
| "inspect Null = ''null''"
| "inspect (Object shown _ _ _) = shown"

fun toEqualWithHash :: "ValueObject js_value \<Rightarrow> ValueObject \<Rightarrow> SyncExpectationResult" where
  "toEqualWithHash (NotObject shown) actual =
     failing (''expected '' @ inspect (NotObject shown :: ValueObject js_value)
              @ '' to be an object'')"
| "toEqualWithHash Null actual =
     failing (''expected '' @ inspect (Null :: ValueObject js_value) @ '' to be an object'')"
| "toEqualWithHash (Object shown received Absent h) actual =
     failing (''expected '' @ shown @ '' to have an \"equals\" method'')"
| "toEqualWithHash (Object shown received NotFunction h) actual =
     failing (''expected '' @ shown @ '' to have an \"equals\" method'')"
| "toEqualWithHash (Object shown received (Method equals) Absent) actual =
     failing (''expected '' @ shown @ '' to have a \"hashCode\" method'')"
| "toEqualWithHash (Object shown received (Method equals) NotFunction) actual =
     failing (''expected '' @ shown @ '' to have a \"hashCode\" method'')"
| "toEqualWithHash (Object shown received (Method equals) (Method receivedHashCode)) actual =
     (if \<not> equals actual then
        failing (''expected '' @ received @ '' to be .equal() to '' @ value_text actual)
      else if receivedHashCode \<noteq> hashCode actual then
        failing (''expected '' @ received @ '' to have the same .hashCode() as ''
                 @ value_text actual)
      else
        passing (''expected '' @ received @ '' not to be .equal() to '' @ value_text actual))"

subsection \<open>\<^verbatim>\<open>captureStdio\<close> and \<^verbatim>\<open>captureStdioAsync\<close>\<close>

text \<open>
  \<^verbatim>\<open>process.stdout.write\<close> and \<^verbatim>\<open>process.stderr.write\<close> are two global, assignable
  function slots. A function found there is the native one or a wrapper that an
  interception installed around the function it found. The record is extensible: whatever
  else belongs to the process is its \<open>more\<close> part.
\<close>

datatype write_fn = NativeWrite | InterceptedWrite write_fn

record stdio =
  stdout_write :: write_fn
  stderr_write :: write_fn

text \<open>
  Modelled from the spec: \<^verbatim>\<open>interceptStdout\<close> is the imported package
  \<^verbatim>\<open>intercept-stdout\<close>, the interception utility that the spec names as an external
  collaborator. It saves the two write functions it finds, installs a wrapper around
  each, and returns \<^verbatim>\<open>unhook\<close>, which assigns the two saved functions back. The
  callbacks of the wrappers are the closures of \<open>on_chunk\<close> below.
\<close>

definition interceptStdout :: "'a stdio_scheme \<Rightarrow> 'a stdio_scheme \<times> ('a stdio_scheme \<Rightarrow> 'a stdio_scheme)" where
  "interceptStdout s =
     (s\<lparr>stdout_write := InterceptedWrite (stdout_write s),
        stderr_write := InterceptedWrite (stderr_write s)\<rparr>,
      \<lambda>s'. s'\<lparr>stdout_write := stdout_write s, stderr_write := stderr_write s\<rparr>)"

datatype stream = Stdout | Stderr

record captured =
  out :: string
  err :: string

text \<open>The two callbacks: \<^verbatim>\<open>out += chunk\<close> and \<^verbatim>\<open>err += chunk\<close>.\<close>

fun on_chunk :: "captured \<Rightarrow> stream \<times> string \<Rightarrow> captured" where
  "on_chunk c (Stdout, chunk) = c\<lparr>out := out c @ chunk\<rparr>"
| "on_chunk c (Stderr, chunk) = c\<lparr>err := err c @ chunk\<rparr>"

text \<open>
  One run of the block, started in a given state of the process: the chunks that reached
  the two callbacks, in order; how the call of the block ended; and the state of the
  process at that moment (for a returned promise: the moment it settles). The block is
  any code, so it may leave other write functions installed than it found.
\<close>

record 'a block_run =
  chunks :: "(stream \<times> string) list"
  outcome :: "unit call_outcome"
  state_after :: "'a stdio_scheme"

definition captureStdio ::
  "('a stdio_scheme \<Rightarrow> 'a block_run) \<Rightarrow> 'a stdio_scheme \<Rightarrow> (js_thrown + captured) \<times> 'a stdio_scheme" where
  "captureStdio block s =
     (let (hooked, unhook) = interceptStdout s;
          run = block hooked;
          result = foldl on_chunk \<lparr>out = [], err = []\<rparr> (chunks run)
      in case outcome run of
           Throws thrown \<Rightarrow> (Inl thrown, unhook (state_after run))
         | _ \<Rightarrow> (Inr result, unhook (state_after run)))"

text \<open>
  The asynchronous variant returns a promise; the second component is the state of the
  process when that promise settles. While the awaited promise is pending the function is
  suspended inside \<^verbatim>\<open>try\<close>, so \<^verbatim>\<open>finally\<close> has not run.
\<close>

definition captureStdioAsync ::
  "('a stdio_scheme \<Rightarrow> 'a block_run) \<Rightarrow> 'a stdio_scheme \<Rightarrow> captured promise \<times> 'a stdio_scheme" where
  "captureStdioAsync block s =
     (let (hooked, unhook) = interceptStdout s;
          run = block hooked;
          result = foldl on_chunk \<lparr>out = [], err = []\<rparr> (chunks run)
      in case outcome run of
           Throws thrown \<Rightarrow> (Rejected thrown, unhook (state_after run))
         | ReturnsPromise (Rejected thrown) \<Rightarrow> (Rejected thrown, unhook (state_after run))
         | ReturnsPromise Pending \<Rightarrow> (Pending, state_after run)
         | _ \<Rightarrow> (Fulfilled result, unhook (state_after run)))"

section \<open>The spec execution engine exercised by the \<^verbatim>\<open>runSpec\<close> suite\<close>

text \<open>
  The suite imports \<^verbatim>\<open>runSpec\<close> from \<^verbatim>\<open>../lib-js/spec\<close> and \<^verbatim>\<open>SpecPath\<close> from
  \<^verbatim>\<open>../lib-js/spec-path\<close>; neither module is among the sources. Their models below
  follow sections 3, 4.1 and 4.3 of the specification.
\<close>

subsection \<open>Data model\<close>

text \<open>\<^verbatim>\<open>todoMode\<close>: absent, \<^verbatim>\<open>"run"\<close> or \<^verbatim>\<open>"probe"\<close>.\<close>

datatype RunMode = Normal | RunTodo | ProbeTodo

datatype classification = Pass | Fail | Skip | Todo

text \<open>Expected outcome kind together with the expected primary artifact.\<close>

datatype expectation = OutputMatch string | ErrorMatch string

record CaseDescriptor =
  expected :: expectation
  expected_warnings :: "string list option"
  ignore :: bool
  ignoreReason :: "string option"
  todo :: bool
  warningTodo :: bool

record ProcessOutput =
  stdout :: string
  stderr :: string
  warnings :: "string list"
  exitCode :: int

text \<open>An invocation of the process under test completes or crashes.\<close>

datatype invocation = Completed ProcessOutput | Crashed string

datatype sub_check = OutputCheck | ErrorCheck | WarningsCheck

datatype diagnostic = Mismatch sub_check | Crash string | UnnecessaryTodo

record ExecutionResult =
  classification :: classification
  diagnostic :: "diagnostic option"
  captured_output :: "ProcessOutput option"

text \<open>
  The options of a run, as the suite passes them (\<^verbatim>\<open>baseOpts\<close> and \<^verbatim>\<open>todoMode\<close>). The
  compiler is the process-invocation capability: arguments and working directory to
  result. Two things the specification leaves open are options as well: the declared
  normalization of output text, and whether a \<open>warningTodo\<close> case has its warning check
  skipped under probe-todo (the specification speaks of normal and run-todo only).
\<close>

record Options =
  impl :: string
  compiler :: "string list \<Rightarrow> string \<Rightarrow> invocation"
  cmdArgs :: "string list"
  rootDir :: string
  todoMode :: RunMode
  normalize :: "string \<Rightarrow> string"
  probe_skips_warning_todo :: bool

datatype rawOutcome = RawPass | RawFail diagnostic

subsection \<open>Decision policy\<close>

text \<open>
  Modelled from the spec: step 5 of section 4.3, first two items. The module
  \<^verbatim>\<open>lib-js/spec\<close> is missing.
\<close>

fun warning_checks_skipped :: "Options \<Rightarrow> bool \<Rightarrow> RunMode \<Rightarrow> bool" where
  "warning_checks_skipped opts False mode = False"
| "warning_checks_skipped opts True Normal = True"
| "warning_checks_skipped opts True RunTodo = False"
| "warning_checks_skipped opts True ProbeTodo = probe_skips_warning_todo opts"

text \<open>
  Modelled from the spec: the primary check of step 3 of section 4.3, \<open>None\<close> when it holds
  and the mismatched sub-check otherwise. The module \<^verbatim>\<open>lib-js/spec\<close> is missing.
\<close>

fun primary_check :: "Options \<Rightarrow> expectation \<Rightarrow> ProcessOutput \<Rightarrow> sub_check option" where
  "primary_check opts (OutputMatch expected_output) po =
     (if normalize opts (stdout po) = normalize opts expected_output \<and> exitCode po = 0
      then None else Some OutputCheck)"
| "primary_check opts (ErrorMatch expected_error) po =
     (if stderr po = expected_error \<and> exitCode po \<noteq> 0
      then None else Some ErrorCheck)"

text \<open>
  Modelled from the spec: the warning policy, step 4 of section 4.3 (exact, order-sensitive
  comparison; an absent expected list means "don't check"). The module
  \<^verbatim>\<open>lib-js/spec\<close> is missing.
\<close>

fun warnings_match :: "string list option \<Rightarrow> string list \<Rightarrow> bool" where
  "warnings_match None actual = True"
| "warnings_match (Some expected_list) actual = (actual = expected_list)"

text \<open>
  Modelled from the spec: \<open>rawOutcome\<close>, steps 3 and 4 of section 4.3, with the crash of
  the invocation as a fail (edge cases of section 4.3). Step 4 makes a warning mismatch a
  fail "even if the primary output/error matched", so the warning policy applies to both
  expectation kinds. The module \<^verbatim>\<open>lib-js/spec\<close> is missing.
\<close>

fun compute_rawOutcome :: "Options \<Rightarrow> CaseDescriptor \<Rightarrow> invocation \<Rightarrow> rawOutcome" where
  "compute_rawOutcome opts d (Crashed why) = RawFail (Crash why)"
| "compute_rawOutcome opts d (Completed po) =
     (case primary_check opts (expected d) po of
        Some c \<Rightarrow> RawFail (Mismatch c)
      | None \<Rightarrow>
          if warning_checks_skipped opts (warningTodo d) (todoMode opts) then RawPass
          else if warnings_match (expected_warnings d) (warnings po) then RawPass
          else RawFail (Mismatch WarningsCheck))"

text \<open>
  Modelled from the spec: the todo items of step 5 of section 4.3, the function
  \<open>(flags, rawOutcome, runMode) \<rightarrow> finalOutcome\<close> of section 9. The module
  \<^verbatim>\<open>lib-js/spec\<close> is missing.
\<close>

fun finalOutcome :: "bool \<Rightarrow> RunMode \<Rightarrow> rawOutcome \<Rightarrow> classification \<times> diagnostic option" where
  "finalOutcome True Normal raw = (Todo, None)"
| "finalOutcome True ProbeTodo (RawFail why) = (Todo, None)"
| "finalOutcome True ProbeTodo RawPass = (Fail, Some UnnecessaryTodo)"
| "finalOutcome is_todo mode RawPass = (Pass, None)"
| "finalOutcome is_todo mode (RawFail why) = (Fail, Some why)"

fun invocation_output :: "invocation \<Rightarrow> ProcessOutput option" where
  "invocation_output (Completed po) = Some po"
| "invocation_output (Crashed why) = None"

text \<open>
  Modelled from the spec: \<^verbatim>\<open>runSpec\<close>, the precedence order of section 4.3. The module
  \<^verbatim>\<open>lib-js/spec\<close> is missing. The natural number counts the invocations of the process
  under test (the spy of section 8).
\<close>

definition runSpec :: "CaseDescriptor \<Rightarrow> Options \<Rightarrow> nat \<Rightarrow> ExecutionResult \<times> nat" where
  "runSpec d opts invocations =
     (if ignore d then
        (\<lparr>classification = Skip, diagnostic = None, captured_output = None\<rparr>, invocations)
      else
        let ran = compiler opts (cmdArgs opts) (rootDir opts);
            raw = compute_rawOutcome opts d ran;
            (final, why) = finalOutcome (todo d) (todoMode opts) raw
        in (\<lparr>classification = final, diagnostic = why,
             captured_output = invocation_output ran\<rparr>, Suc invocations))"

subsection \<open>Archive tree and its materialization\<close>

datatype ArchiveEntry =
  File (entry_name: string) (content: string)
| Directory (entry_name: string) (children: "ArchiveEntry list")

text \<open>Invariant of section 3: within one directory, child names are unique.\<close>

fun unique_names :: "ArchiveEntry \<Rightarrow> bool" where
  "unique_names (File n c) = True"
| "unique_names (Directory n cs) =
     (distinct (map entry_name cs) \<and> list_all unique_names cs)"

text \<open>The files of a subtree: path relative to the subtree's root, and byte content.\<close>

fun files :: "ArchiveEntry \<Rightarrow> (string list \<times> string) list" where
  "files (File n c) = [([], c)]"
| "files (Directory n cs) =
     concat (map (\<lambda>ch. map (\<lambda>(p, c). (entry_name ch # p, c)) (files ch)) cs)"

text \<open>A filesystem maps a path (its segments) to what is there.\<close>

datatype fs_node = FileNode string | DirNode

type_synonym filesystem = "string list \<rightharpoonup> fs_node"

datatype fs_error = ENOENT | EISDIR

definition readFile :: "string list \<Rightarrow> filesystem \<Rightarrow> fs_error + string" where
  "readFile p fs =
     (case fs p of None \<Rightarrow> Inl ENOENT | Some DirNode \<Rightarrow> Inl EISDIR | Some (FileNode c) \<Rightarrow> Inr c)"

definition exists_on_disk :: "string list \<Rightarrow> filesystem \<Rightarrow> bool" where
  "exists_on_disk p fs = (fs p \<noteq> None)"

record MaterializedSpec =
  root :: "string list"
  source :: ArchiveEntry

text \<open>
  Modelled from the spec: the recursive creation of directories and files of
  \<^verbatim>\<open>writeToDisk\<close> (section 4.1); the entry is realized at the path \<open>at\<close>, its children
  one segment below. The module \<^verbatim>\<open>lib-js/spec-path\<close> is missing.
\<close>

fun materialize :: "string list \<Rightarrow> ArchiveEntry \<Rightarrow> filesystem \<Rightarrow> filesystem" where
  "materialize at (File n c) fs = fs(at \<mapsto> FileNode c)"
| "materialize at (Directory n cs) fs =
     fold (\<lambda>ch. materialize (at @ [entry_name ch]) ch) cs (fs(at \<mapsto> DirNode))"

text \<open>
  Modelled from the spec: \<^verbatim>\<open>writeToDisk\<close> (section 4.1). The module
  \<^verbatim>\<open>lib-js/spec-path\<close> is missing. \<open>location\<close> is the fresh temporary location that the
  handle owns.
\<close>

definition writeToDisk :: "ArchiveEntry \<Rightarrow> string list \<Rightarrow> filesystem \<Rightarrow> MaterializedSpec \<times> filesystem" where
  "writeToDisk entry location fs =
     (\<lparr>root = location, source = entry\<rparr>, materialize location entry fs)"

text \<open>
  Modelled from the spec: \<^verbatim>\<open>cleanup\<close> (section 4.1), the recursive deletion of the owned
  subtree, which does not fail where nothing is left to delete. The module
  \<^verbatim>\<open>lib-js/spec-path\<close> is missing.
\<close>

definition cleanup :: "MaterializedSpec \<Rightarrow> filesystem \<Rightarrow> fs_error + filesystem" where
  "cleanup h fs = Inr (\<lambda>p. if prefix (root h) p then None else fs p)"

section \<open>Reference definitions for the refinement statements\<close>

subsection \<open>The sub-checks of \<^verbatim>\<open>verifyThrown\<close> as the specification lists them\<close>

datatype thrown_check =
  IsSassException | UrlEquals | SpanHasNoUrl | StartLineEquals | HasSassMessage | HasSassStack

definition check_order :: "thrown_check list" where
  "check_order =
     [IsSassException, UrlEquals, SpanHasNoUrl, StartLineEquals, HasSassMessage, HasSassStack]"

text \<open>
  Whether a sub-check holds. An option is given when it is truthy; a check whose option is
  not given holds. Of a value that is no \<^verbatim>\<open>sass.Exception\<close> no sub-check holds.
\<close>

fun check_holds :: "thrown_check \<Rightarrow> js_thrown \<Rightarrow> ToThrowSassExceptionOptions \<Rightarrow> bool" where
  "check_holds c (OtherThrown shown) opts = False"
| "check_holds IsSassException (SassException e) opts = True"
| "check_holds UrlEquals (SassException e) opts =
     (if truthy_url (url opts) then span_url (span e) = Some (show_opt_url (url opts)) else True)"
| "check_holds SpanHasNoUrl (SassException e) opts =
     (if truthy_bool (noUrl opts) then span_url (span e) = None else True)"
| "check_holds StartLineEquals (SassException e) opts =
     (if truthy_number (line opts) then start_line e = line opts else True)"
| "check_holds HasSassMessage (SassException e) opts = truthy_field (sassMessage e)"
| "check_holds HasSassStack (SassException e) opts = truthy_field (sassStack e)"

fun thrown_text :: "js_thrown \<Rightarrow> string" where
  "thrown_text (OtherThrown shown) = shown"
| "thrown_text (SassException e) = exception_text e"

fun thrown_span_url :: "js_thrown \<Rightarrow> string option" where
  "thrown_span_url (OtherThrown shown) = None"
| "thrown_span_url (SassException e) = span_url (span e)"

fun thrown_start_line :: "js_thrown \<Rightarrow> int option" where
  "thrown_start_line (OtherThrown shown) = None"
| "thrown_start_line (SassException e) = start_line e"

text \<open>The message that identifies a sub-check.\<close>

fun check_message :: "thrown_check \<Rightarrow> js_thrown \<Rightarrow> ToThrowSassExceptionOptions \<Rightarrow> string" where
  "check_message IsSassException t opts =
     ''expected '' @ thrown_text t @ '' to be a sass.Exception''"
| "check_message UrlEquals t opts =
     ''expected '' @ show_opt_url (url opts) @ '', was '' @ show_opt_string (thrown_span_url t)
       @ '':'' @ newline @ thrown_text t"
| "check_message SpanHasNoUrl t opts = ''expected no URL:'' @ newline @ thrown_text t"
| "check_message StartLineEquals t opts =
     ''expected to start on line '' @ show_opt_int (line opts) @ '', was ''
       @ show_opt_int (thrown_start_line t) @ '':'' @ newline @ thrown_text t"
| "check_message HasSassMessage t opts =
     ''expected a sassMessage field:'' @ newline @ thrown_text t"
| "check_message HasSassStack t opts =
     ''expected a sassStack field:'' @ newline @ thrown_text t"

definition first_failing_check ::
  "js_thrown \<Rightarrow> ToThrowSassExceptionOptions \<Rightarrow> thrown_check option" where
  "first_failing_check t opts = find (\<lambda>c. \<not> check_holds c t opts) check_order"

subsection \<open>The capabilities that \<^verbatim>\<open>toEqualWithHash\<close> requires\<close>

fun is_object :: "'r js_value \<Rightarrow> bool" where
  "is_object (Object shown txt eq h) = True"
| "is_object v = False"

fun is_method :: "'f member \<Rightarrow> bool" where
  "is_method (Method f) = True"
| "is_method m = False"

fun has_equals :: "'r js_value \<Rightarrow> bool" where
  "has_equals (Object shown txt eq h) = is_method eq"
| "has_equals v = False"

fun has_hashCode :: "'r js_value \<Rightarrow> bool" where
  "has_hashCode (Object shown txt eq h) = is_method h"
| "has_hashCode v = False"

text \<open>\<^verbatim>\<open>received.equals(reference)\<close> and \<^verbatim>\<open>received.hashCode() === reference.hashCode()\<close>.\<close>

fun equals_reference :: "ValueObject js_value \<Rightarrow> ValueObject \<Rightarrow> bool" where
  "equals_reference (Object shown txt (Method equals) h) actual = equals actual"
| "equals_reference v actual = False"

fun same_hashCode :: "ValueObject js_value \<Rightarrow> ValueObject \<Rightarrow> bool" where
  "same_hashCode (Object shown txt eq (Method h)) actual = (h = hashCode actual)"
| "same_hashCode v actual = False"

fun received_text :: "'r js_value \<Rightarrow> string" where
  "received_text (Object shown txt eq h) = txt"
| "received_text v = inspect v"

section \<open>Example inputs\<close>

definition plain_span :: SourceSpan where
  "plain_span = \<lparr>span_url = Some ''file:///style.scss'',
                  span_start = Some \<lparr>loc_line = 3, loc_column = 0\<rparr>\<rparr>"

definition plain_exception :: sass_Exception where
  "plain_exception = \<lparr>span = plain_span, sassMessage = Some ''Undefined variable.'',
     sassStack = Some ''style.scss 4:1  root stylesheet'',
     exception_text = ''Error: Undefined variable.''\<rparr>"

definition no_options :: ToThrowSassExceptionOptions where
  "no_options = \<lparr>line = None, url = None, noUrl = None\<rparr>"

text \<open>
  Cases and options in the manner of the suite's fixtures: a mock compiler that answers
  every invocation with one prepared output.
\<close>

definition mockCompiler :: "ProcessOutput \<Rightarrow> string list \<Rightarrow> string \<Rightarrow> invocation" where
  "mockCompiler po args cwd = Completed po"

definition mock_output :: ProcessOutput where
  "mock_output = \<lparr>stdout = ''a {b: c}'', stderr = [],
     warnings = [''WARNING: second'', ''WARNING: first''], exitCode = 0\<rparr>"

definition baseOpts :: "RunMode \<Rightarrow> Options" where
  "baseOpts mode = \<lparr>impl = ''sass-mock'', compiler = mockCompiler mock_output,
     cmdArgs = [''fixtures/sass-exec-mock.js''], rootDir = ''fixtures'',
     todoMode = mode, normalize = id, probe_skips_warning_todo = False\<rparr>"

definition output_case :: CaseDescriptor where
  "output_case = \<lparr>expected = OutputMatch ''a {b: c}'',
     expected_warnings = Some [''WARNING: first'', ''WARNING: second''],
     ignore = False, ignoreReason = None, todo = False, warningTodo = False\<rparr>"

definition classify_raw :: "rawOutcome \<Rightarrow> classification" where
  "classify_raw raw = (case raw of RawPass \<Rightarrow> Pass | RawFail why \<Rightarrow> Fail)"

definition archive_example :: ArchiveEntry where
  "archive_example =
     Directory ''warning''
       [File ''input.scss'' ''@warn first; a {b: c}'',
        Directory ''todo'' [File ''output.css'' ''a {b: c}'', File ''warning'' []],
        File ''options.yml'' '':warning_todo: [sass-mock]'']"

definition temp_location :: "string list" where
  "temp_location = [''tmp'', ''sass-spec-1'']"

text \<open>
  A disk on which something is already stored, inside and outside the chosen location.
\<close>

definition disk_example :: filesystem where
  "disk_example =
     [[''tmp''] \<mapsto> DirNode, [''tmp'', ''sass-spec-1'', ''stale''] \<mapsto> FileNode ''old'',
      [''tmp'', ''other''] \<mapsto> FileNode ''kept'']"

text \<open>
  A block that writes to both streams, leaves an interception of its own installed on
  stdout, and ends as the given outcome says.
\<close>

definition noisy_block :: "unit call_outcome \<Rightarrow> stdio \<Rightarrow> unit block_run" where
  "noisy_block ending s =
     \<lparr>chunks = [(Stdout, ''a''), (Stderr, ''b''), (Stdout, ''c'')], outcome = ending,
      state_after = s\<lparr>stdout_write := InterceptedWrite (stdout_write s)\<rparr>\<rparr>"

definition nested_stdio :: stdio where
  "nested_stdio = \<lparr>stdout_write = InterceptedWrite NativeWrite, stderr_write = NativeWrite\<rparr>"

definition equal_value :: "ValueObject js_value" where
  "equal_value = Object ''List [ 1 ]'' ''List [ 1 ]'' (Method (\<lambda>other. hashCode other = 7)) (Method 7)"

definition reference_value :: ValueObject where
  "reference_value = \<lparr>hashCode = 7, value_text = ''List [ 1 ]''\<rparr>"

section \<open>Properties of the matcher extensions\<close>

subsection \<open>Sub-checks of \<^verbatim>\<open>verifyThrown\<close>\<close>

text \<open>
  C6. \<^verbatim>\<open>verifyThrown\<close> goes through its sub-checks in the order: the thrown value is a
  \<^verbatim>\<open>sass.Exception\<close>; the span's URL equals the given \<open>url\<close>; the span has no URL when
  \<open>noUrl\<close> is requested; the span's start line equals the given \<open>line\<close>; the exception has
  a \<open>sassMessage\<close>; it has a \<open>sassStack\<close>. It passes exactly when every sub-check holds,
  and otherwise fails with the message of the first sub-check in that order that does not
  hold. An option counts as given when it is truthy, and a field counts as present when
  it is truthy, which is how the code tests both.
\<close>

theorem verifyThrown_checks_in_order:
  "(pass (verifyThrown t opts) \<longleftrightarrow> (\<forall>c \<in> set check_order. check_holds c t opts))
   \<and> (\<forall>c. first_failing_check t opts = Some c \<longrightarrow>
          verifyThrown t opts = \<lparr>pass = False, message = check_message c t opts\<rparr>)"
proof (cases t)
  case (OtherThrown shown)
  then show ?thesis
    by (auto simp: check_order_def first_failing_check_def failing_def)
next
  case (SassException e)
  have p: "pass (verifyThrown (SassException e) opts)
            \<longleftrightarrow> (\<forall>c \<in> set check_order. check_holds c (SassException e) opts)"
    by (simp add: check_order_def failing_def passing_def)
  have m: "first_failing_check (SassException e) opts = Some c \<Longrightarrow>
          verifyThrown (SassException e) opts
            = \<lparr>pass = False, message = check_message c (SassException e) opts\<rparr>" for c
    by (auto simp: check_order_def first_failing_check_def failing_def split: if_splits)
  from p m SassException show ?thesis by blast
qed

text \<open>
  An exception whose span has a URL and starts on line 3, checked with \<open>noUrl\<close> and
  \<open>line = 4\<close>: both sub-checks fail, and the message is the one of the earlier.
\<close>

theorem verifyThrown_checks_in_order_witness:
  "first_failing_check (SassException plain_exception)
       \<lparr>line = Some 4, url = None, noUrl = Some True\<rparr> = Some SpanHasNoUrl
   \<and> \<not> check_holds StartLineEquals (SassException plain_exception)
       \<lparr>line = Some 4, url = None, noUrl = Some True\<rparr>
   \<and> verifyThrown (SassException plain_exception) \<lparr>line = Some 4, url = None, noUrl = Some True\<rparr>
       = \<lparr>pass = False, message = ''expected no URL:'' @ newline @ ''Error: Undefined variable.''\<rparr>
   \<and> pass (verifyThrown (SassException plain_exception) no_options)"
proof -
  have f: "first_failing_check (SassException plain_exception)
       \<lparr>line = Some 4, url = None, noUrl = Some True\<rparr> = Some SpanHasNoUrl"
    by (simp add: first_failing_check_def check_order_def plain_exception_def plain_span_def
        truthy_string_def)
  have a: "\<forall>c \<in> set check_order. check_holds c (SassException plain_exception) no_options"
    by (simp add: check_order_def plain_exception_def no_options_def truthy_string_def)
  have l: "\<not> check_holds StartLineEquals (SassException plain_exception)
       \<lparr>line = Some 4, url = None, noUrl = Some True\<rparr>"
    by (simp add: plain_exception_def plain_span_def start_line_def)
  from verifyThrown_checks_in_order
         [of "SassException plain_exception" "\<lparr>line = Some 4, url = None, noUrl = Some True\<rparr>"]
       verifyThrown_checks_in_order [of "SassException plain_exception" no_options]
       f a l
  show ?thesis by (simp add: plain_exception_def)
qed

subsection \<open>Callbacks that do not throw\<close>

text \<open>
  C7. \<^verbatim>\<open>toThrowSassException\<close> calls the callback. When the callback returns a value that
  is not a promise, the result is the failing result with the message that the callback
  was expected to throw; when it returns a promise that is fulfilled, the result is a
  promise of that same failing result. A thrown value goes to \<^verbatim>\<open>verifyThrown\<close>, and so
  does the reason of a rejected promise.
\<close>

theorem toThrowSassException_returns_normally:
  "toThrowSassException (Function src (Returns v)) opts
     = Inr (Sync \<lparr>pass = False, message = ''expected '' @ src @ '' to throw''\<rparr>)
   \<and> toThrowSassException (Function src (ReturnsPromise (Fulfilled v))) opts
     = Inr (Async (Fulfilled \<lparr>pass = False, message = ''expected '' @ src @ '' to throw''\<rparr>))
   \<and> toThrowSassException (Function src (Throws t)) opts = Inr (Sync (verifyThrown t opts))
   \<and> toThrowSassException (Function src (ReturnsPromise (Rejected t))) opts
     = Inr (Async (Fulfilled (verifyThrown t opts)))"
  by (simp add: failing_def)

theorem toThrowSassException_returns_normally_witness:
  "toThrowSassException (Function ''() => 1'' (Returns (1::int))) no_options
     = Inr (Sync \<lparr>pass = False, message = ''expected () => 1 to throw''\<rparr>)
   \<and> toThrowSassException (Function ''() => 1'' (ReturnsPromise (Fulfilled (1::int)))) no_options
     = Inr (Async (Fulfilled \<lparr>pass = False, message = ''expected () => 1 to throw''\<rparr>))
   \<and> toThrowSassException (Function ''() => 1''
        (ReturnsPromise (Rejected (SassException plain_exception) :: int promise))) no_options
     = Inr (Async (Fulfilled \<lparr>pass = True,
         message = ''expected not to throw a sass.Exception:'' @ newline
                   @ ''Error: Undefined variable.''\<rparr>))"
  using toThrowSassException_returns_normally
          [of "''() => 1''" "1::int" no_options "SassException plain_exception"]
  by (simp add: plain_exception_def plain_span_def no_options_def passing_def
      truthy_string_def start_line_def)

subsection \<open>Equality with hash code\<close>

lemma equals_hashCode_messages_differ:
  "''expected '' @ a @ '' to have an \"equals\" method''
     \<noteq> ''expected '' @ b @ '' to have a \"hashCode\" method''"
proof
  assume "''expected '' @ a @ '' to have an \"equals\" method''
     = ''expected '' @ b @ '' to have a \"hashCode\" method''"
  then have "rev (''expected '' @ a @ '' to have an \"equals\" method'')
     = rev (''expected '' @ b @ '' to have a \"hashCode\" method'')"
    by (rule arg_cong)
  then show False by simp
qed

lemma toEqualWithHash_by_cases:
  "(pass (toEqualWithHash received actual) \<longleftrightarrow>
      is_object received \<and> has_equals received \<and> has_hashCode received
      \<and> equals_reference received actual \<and> same_hashCode received actual)
   \<and> (is_object received \<and> \<not> has_equals received \<longrightarrow>
        toEqualWithHash received actual =
          \<lparr>pass = False,
           message = ''expected '' @ inspect received @ '' to have an \"equals\" method''\<rparr>)
   \<and> (has_equals received \<and> \<not> has_hashCode received \<longrightarrow>
        toEqualWithHash received actual =
          \<lparr>pass = False,
           message = ''expected '' @ inspect received @ '' to have a \"hashCode\" method''\<rparr>)
   \<and> (has_equals received \<and> has_hashCode received \<and> \<not> equals_reference received actual \<longrightarrow>
        toEqualWithHash received actual =
          \<lparr>pass = False,
           message = ''expected '' @ received_text received @ '' to be .equal() to ''
                     @ value_text actual\<rparr>)
   \<and> (has_equals received \<and> has_hashCode received \<and> equals_reference received actual
        \<and> \<not> same_hashCode received actual \<longrightarrow>
        toEqualWithHash received actual =
          \<lparr>pass = False,
           message = ''expected '' @ received_text received
                     @ '' to have the same .hashCode() as '' @ value_text actual\<rparr>)"
  by (cases "(received, actual)" rule: toEqualWithHash.cases)
     (simp_all add: failing_def passing_def)

text \<open>
  C8. \<^verbatim>\<open>toEqualWithHash\<close> passes if and only if the received value is a non-null object with
  an \<open>equals\<close> method and a \<open>hashCode\<close> method, \<open>received.equals(reference)\<close> holds and
  both hash codes are equal. An object without \<open>equals\<close> method fails with one message, an
  object with \<open>equals\<close> but without \<open>hashCode\<close> method with another, and the two differ; an
  object that is not equal and an object with another hash code fail each with a message
  of their own.
\<close>

theorem toEqualWithHash_characterisation:
  "(pass (toEqualWithHash received actual) \<longleftrightarrow>
      is_object received \<and> has_equals received \<and> has_hashCode received
      \<and> equals_reference received actual \<and> same_hashCode received actual)
   \<and> (is_object received \<and> \<not> has_equals received \<longrightarrow>
        toEqualWithHash received actual =
          \<lparr>pass = False,
           message = ''expected '' @ inspect received @ '' to have an \"equals\" method''\<rparr>)
   \<and> (has_equals received \<and> \<not> has_hashCode received \<longrightarrow>
        toEqualWithHash received actual =
          \<lparr>pass = False,
           message = ''expected '' @ inspect received @ '' to have a \"hashCode\" method''\<rparr>)
   \<and> (has_equals received \<and> has_hashCode received \<and> \<not> equals_reference received actual \<longrightarrow>
        toEqualWithHash received actual =
          \<lparr>pass = False,
           message = ''expected '' @ received_text received @ '' to be .equal() to ''
                     @ value_text actual\<rparr>)
   \<and> (has_equals received \<and> has_hashCode received \<and> equals_reference received actual
        \<and> \<not> same_hashCode received actual \<longrightarrow>
        toEqualWithHash received actual =
          \<lparr>pass = False,
           message = ''expected '' @ received_text received
                     @ '' to have the same .hashCode() as '' @ value_text actual\<rparr>)
   \<and> ''expected '' @ inspect received @ '' to have an \"equals\" method''
       \<noteq> ''expected '' @ inspect received @ '' to have a \"hashCode\" method''
   \<and> ''expected '' @ received_text received @ '' to be .equal() to '' @ value_text actual
       \<noteq> ''expected '' @ received_text received @ '' to have the same .hashCode() as ''
           @ value_text actual"
proof -
  have d1: "''expected '' @ inspect received @ '' to have an \"equals\" method''
       \<noteq> ''expected '' @ inspect received @ '' to have a \"hashCode\" method''"
    by (rule equals_hashCode_messages_differ)
  have d2: "''expected '' @ received_text received @ '' to be .equal() to '' @ value_text actual
       \<noteq> ''expected '' @ received_text received @ '' to have the same .hashCode() as ''
           @ value_text actual"
    by simp
  from toEqualWithHash_by_cases [of received actual] d1 d2 show ?thesis by blast
qed

text \<open>
  An equal value with the same hash code passes; the same object without its \<open>hashCode\<close>
  method, without its \<open>equals\<close> method, or with another hash code fails.
\<close>

theorem toEqualWithHash_characterisation_witness:
  "pass (toEqualWithHash equal_value reference_value)
   \<and> toEqualWithHash (Object ''{}'' ''[object Object]'' Absent NotFunction) reference_value
       = \<lparr>pass = False, message = ''expected {} to have an \"equals\" method''\<rparr>
   \<and> toEqualWithHash (Object ''{}'' ''[object Object]'' (Method (\<lambda>other. True)) Absent)
         reference_value
       = \<lparr>pass = False, message = ''expected {} to have a \"hashCode\" method''\<rparr>
   \<and> toEqualWithHash (Object ''{}'' ''[object Object]'' (Method (\<lambda>other. True)) (Method 8))
         reference_value
       = \<lparr>pass = False,
          message = ''expected [object Object] to have the same .hashCode() as List [ 1 ]''\<rparr>
   \<and> \<not> pass (toEqualWithHash Null reference_value)"
  using toEqualWithHash_characterisation [of equal_value reference_value]
    toEqualWithHash_characterisation
      [of "Object ''{}'' ''[object Object]'' Absent NotFunction" reference_value]
    toEqualWithHash_characterisation
      [of "Object ''{}'' ''[object Object]'' (Method (\<lambda>other. True)) Absent" reference_value]
    toEqualWithHash_characterisation
      [of "Object ''{}'' ''[object Object]'' (Method (\<lambda>other. True)) (Method 8)" reference_value]
    toEqualWithHash_characterisation [of Null reference_value]
  by (simp add: equal_value_def reference_value_def)

subsection \<open>Falsy options\<close>

text \<open>
  C9. An option of \<^verbatim>\<open>toThrowSassException\<close> counts only when it is truthy: with
  \<open>line = 0\<close>, with \<open>url = ""\<close> and with \<open>noUrl = false\<close> the matcher and
  \<^verbatim>\<open>verifyThrown\<close> return what they return when that option is omitted, for every thrown
  value and whatever the other options are. So \<open>line = 0\<close> never fails on the start line
  and \<open>url = ""\<close> never fails on the URL.
\<close>

theorem falsy_options_behave_as_omitted:
  "verifyThrown thrown (opts\<lparr>line := Some 0\<rparr>) = verifyThrown thrown (opts\<lparr>line := None\<rparr>)
   \<and> verifyThrown thrown (opts\<lparr>url := Some (UrlString [])\<rparr>)
       = verifyThrown thrown (opts\<lparr>url := None\<rparr>)
   \<and> verifyThrown thrown (opts\<lparr>noUrl := Some False\<rparr>)
       = verifyThrown thrown (opts\<lparr>noUrl := None\<rparr>)
   \<and> toThrowSassException received (opts\<lparr>line := Some 0\<rparr>)
       = toThrowSassException received (opts\<lparr>line := None\<rparr>)
   \<and> toThrowSassException received (opts\<lparr>url := Some (UrlString [])\<rparr>)
       = toThrowSassException received (opts\<lparr>url := None\<rparr>)
   \<and> toThrowSassException received (opts\<lparr>noUrl := Some False\<rparr>)
       = toThrowSassException received (opts\<lparr>noUrl := None\<rparr>)"
proof -
  have l: "verifyThrown t (opts\<lparr>line := Some 0\<rparr>) = verifyThrown t (opts\<lparr>line := None\<rparr>)" for t
    by (cases t) simp_all
  have u: "verifyThrown t (opts\<lparr>url := Some (UrlString [])\<rparr>)
       = verifyThrown t (opts\<lparr>url := None\<rparr>)" for t
    by (cases t) (simp_all add: truthy_string_def)
  have n: "verifyThrown t (opts\<lparr>noUrl := Some False\<rparr>)
       = verifyThrown t (opts\<lparr>noUrl := None\<rparr>)" for t
    by (cases t) simp_all
  have same: "toThrowSassException received o1 = toThrowSassException received o2"
    if "\<And>t. verifyThrown t o1 = verifyThrown t o2" for o1 o2
  proof (cases received)
    case NotAFunction
    then show ?thesis by simp
  next
    case (Function src call)
    show ?thesis
    proof (cases call)
      case (Returns v)
      with Function show ?thesis by simp
    next
      case (ReturnsPromise p)
      with Function that show ?thesis by (cases p) simp_all
    next
      case (Throws t)
      with Function that show ?thesis by simp
    qed
  qed
  from l u n same [OF l] same [OF u] same [OF n] show ?thesis by simp
qed

text \<open>The example exception starts on line 3; with \<open>line = 0\<close> the matcher passes.\<close>

theorem falsy_options_behave_as_omitted_witness:
  "start_line plain_exception = Some 3
   \<and> pass (verifyThrown (SassException plain_exception) (no_options\<lparr>line := Some 0\<rparr>))
   \<and> pass (verifyThrown (SassException plain_exception)
             (no_options\<lparr>url := Some (UrlString [])\<rparr>))
   \<and> \<not> pass (verifyThrown (SassException plain_exception) (no_options\<lparr>line := Some 4\<rparr>))"
  using falsy_options_behave_as_omitted [of "SassException plain_exception" no_options NotAFunction]
  by (simp add: plain_exception_def plain_span_def no_options_def passing_def failing_def
      truthy_string_def start_line_def)

subsection \<open>Capturing the standard streams\<close>

text \<open>
  C10. \<^verbatim>\<open>captureStdio\<close> leaves \<^verbatim>\<open>process.stdout.write\<close> and \<^verbatim>\<open>process.stderr.write\<close> as
  they were before the call, whatever the block did and also when it throws; when the
  block throws, the call ends with that exception and returns no captured text.
  \<^verbatim>\<open>captureStdioAsync\<close> does the same once the awaited promise has settled: the write
  functions are as before the call, and a thrown value or the reason of a rejection is
  the reason the returned promise is rejected with.
\<close>

theorem captureStdio_unhooks:
  "stdout_write (snd (captureStdio block s)) = stdout_write s
   \<and> stderr_write (snd (captureStdio block s)) = stderr_write s
   \<and> (\<forall>thrown. outcome (block (fst (interceptStdout s))) = Throws thrown \<longrightarrow>
        fst (captureStdio block s) = Inl thrown)
   \<and> (outcome (block (fst (interceptStdout s))) \<noteq> ReturnsPromise Pending \<longrightarrow>
        stdout_write (snd (captureStdioAsync block s)) = stdout_write s
        \<and> stderr_write (snd (captureStdioAsync block s)) = stderr_write s)
   \<and> (\<forall>thrown. outcome (block (fst (interceptStdout s))) = Throws thrown
          \<or> outcome (block (fst (interceptStdout s))) = ReturnsPromise (Rejected thrown) \<longrightarrow>
        fst (captureStdioAsync block s) = Rejected thrown)"
  by (auto simp: captureStdio_def captureStdioAsync_def interceptStdout_def Let_def
           split: call_outcome.splits promise.splits)

text \<open>
  A block that writes three chunks, installs an interception of its own and throws, run
  while another interception is already installed on stdout.
\<close>

theorem captureStdio_unhooks_witness:
  "captureStdio (noisy_block (Throws (OtherThrown ''Error: boom''))) nested_stdio
     = (Inl (OtherThrown ''Error: boom''), nested_stdio)
   \<and> captureStdio (noisy_block (Returns ())) nested_stdio
     = (Inr \<lparr>out = ''ac'', err = ''b''\<rparr>, nested_stdio)
   \<and> captureStdioAsync (noisy_block (ReturnsPromise (Rejected (OtherThrown ''Error: boom''))))
       nested_stdio
     = (Rejected (OtherThrown ''Error: boom''), nested_stdio)
   \<and> captureStdioAsync (noisy_block (ReturnsPromise (Fulfilled ()))) nested_stdio
     = (Fulfilled \<lparr>out = ''ac'', err = ''b''\<rparr>, nested_stdio)"
  using captureStdio_unhooks
          [of "noisy_block (Throws (OtherThrown ''Error: boom''))" nested_stdio]
        captureStdio_unhooks
          [of "noisy_block (ReturnsPromise (Rejected (OtherThrown ''Error: boom'')))" nested_stdio]
  by (simp add: captureStdio_def captureStdioAsync_def interceptStdout_def noisy_block_def
      nested_stdio_def)

section \<open>Properties of the spec execution engine\<close>

subsection \<open>Todo cases\<close>

text \<open>
  C1. For a case with the \<open>todo\<close> flag set and \<open>ignore\<close> not set, the outcome of
  \<^verbatim>\<open>runSpec\<close> follows from the run mode and \<open>rawOutcome\<close>: under normal mode it is todo
  whatever \<open>rawOutcome\<close> is; under run-todo it is \<open>rawOutcome\<close>; under probe-todo a
  \<open>rawOutcome\<close> of fail gives todo and a \<open>rawOutcome\<close> of pass gives fail.
\<close>

theorem todo_policy:
  assumes "todo d" and "\<not> ignore d"
  shows "(todoMode opts = Normal \<longrightarrow> classification (fst (runSpec d opts n)) = Todo)
    \<and> (todoMode opts = RunTodo \<longrightarrow>
         classification (fst (runSpec d opts n))
           = classify_raw (compute_rawOutcome opts d (compiler opts (cmdArgs opts) (rootDir opts))))
    \<and> (todoMode opts = ProbeTodo \<longrightarrow>
         classification (fst (runSpec d opts n))
           = (case compute_rawOutcome opts d (compiler opts (cmdArgs opts) (rootDir opts)) of
                RawFail why \<Rightarrow> Todo | RawPass \<Rightarrow> Fail))"
  using assms
  by (cases "compute_rawOutcome opts d (compiler opts (cmdArgs opts) (rootDir opts))")
     (simp_all add: runSpec_def classify_raw_def Let_def)

text \<open>
  A failing todo case (its warnings are mismatched) under the three modes, and a passing
  todo case (no expected warnings) under probe-todo.
\<close>

theorem todo_policy_witness:
  "todo (output_case\<lparr>todo := True\<rparr>) \<and> \<not> ignore (output_case\<lparr>todo := True\<rparr>)
   \<and> classification (fst (runSpec (output_case\<lparr>todo := True\<rparr>) (baseOpts Normal) 0)) = Todo
   \<and> classification (fst (runSpec (output_case\<lparr>todo := True\<rparr>) (baseOpts RunTodo) 0)) = Fail
   \<and> classification (fst (runSpec (output_case\<lparr>todo := True\<rparr>) (baseOpts ProbeTodo) 0)) = Todo
   \<and> classification (fst (runSpec (output_case\<lparr>todo := True, expected_warnings := None\<rparr>)
                            (baseOpts ProbeTodo) 0)) = Fail
   \<and> classification (fst (runSpec (output_case\<lparr>todo := True, expected_warnings := None\<rparr>)
                            (baseOpts RunTodo) 0)) = Pass"
proof -
  have t: "todo (output_case\<lparr>todo := True\<rparr>)"
    "todo (output_case\<lparr>todo := True, expected_warnings := None\<rparr>)"
    by simp_all
  have i: "\<not> ignore (output_case\<lparr>todo := True\<rparr>)"
    "\<not> ignore (output_case\<lparr>todo := True, expected_warnings := None\<rparr>)"
    by (simp_all add: output_case_def)
  have raw: "compute_rawOutcome (baseOpts mode) (output_case\<lparr>todo := True\<rparr>)
               (compiler (baseOpts mode) (cmdArgs (baseOpts mode)) (rootDir (baseOpts mode)))
             = RawFail (Mismatch WarningsCheck)"
    "compute_rawOutcome (baseOpts mode) (output_case\<lparr>todo := True, expected_warnings := None\<rparr>)
               (compiler (baseOpts mode) (cmdArgs (baseOpts mode)) (rootDir (baseOpts mode)))
             = RawPass" for mode
    by (simp_all add: baseOpts_def output_case_def mockCompiler_def mock_output_def)
  from todo_policy [OF t(1) i(1), of "baseOpts Normal" 0]
       todo_policy [OF t(1) i(1), of "baseOpts RunTodo" 0]
       todo_policy [OF t(1) i(1), of "baseOpts ProbeTodo" 0]
       todo_policy [OF t(2) i(2), of "baseOpts ProbeTodo" 0]
       todo_policy [OF t(2) i(2), of "baseOpts RunTodo" 0]
       t i raw
  show ?thesis by (simp add: baseOpts_def classify_raw_def)
qed

subsection \<open>Ignored cases\<close>

text \<open>
  C2. For a case with the \<open>ignore\<close> flag set, \<^verbatim>\<open>runSpec\<close> returns skip and the process
  under test is not invoked (the count of invocations is unchanged), in every run mode and
  whatever the other flags, \<open>todo\<close> included, are.
\<close>

theorem ignore_dominates:
  assumes "ignore d"
  shows "runSpec d opts n
           = (\<lparr>classification = Skip, diagnostic = None, captured_output = None\<rparr>, n)"
  using assms by (simp add: runSpec_def)

theorem ignore_dominates_witness:
  "ignore (output_case\<lparr>ignore := True, todo := True\<rparr>)
   \<and> todo (output_case\<lparr>ignore := True, todo := True\<rparr>)
   \<and> runSpec (output_case\<lparr>ignore := True, todo := True\<rparr>) (baseOpts Normal) 5
       = (\<lparr>classification = Skip, diagnostic = None, captured_output = None\<rparr>, 5)
   \<and> runSpec (output_case\<lparr>ignore := True, todo := True\<rparr>) (baseOpts RunTodo) 5
       = (\<lparr>classification = Skip, diagnostic = None, captured_output = None\<rparr>, 5)
   \<and> runSpec (output_case\<lparr>ignore := True, todo := True\<rparr>) (baseOpts ProbeTodo) 5
       = (\<lparr>classification = Skip, diagnostic = None, captured_output = None\<rparr>, 5)"
proof -
  have i: "ignore (output_case\<lparr>ignore := True, todo := True\<rparr>)" by simp
  from ignore_dominates [OF i, of "baseOpts Normal" 5]
       ignore_dominates [OF i, of "baseOpts RunTodo" 5]
       ignore_dominates [OF i, of "baseOpts ProbeTodo" 5]
  show ?thesis by simp
qed

subsection \<open>Warning-todo cases\<close>

text \<open>
  C3, as stated, fails: a case with \<open>warningTodo\<close> whose primary output matches and whose
  warnings are mismatched is todo under normal mode when its \<open>todo\<close> flag is set as well,
  and skip when its \<open>ignore\<close> flag is set.
\<close>

theorem warning_todo_counterexample:
  "warningTodo (output_case\<lparr>warningTodo := True, todo := True\<rparr>)
   \<and> compiler (baseOpts Normal) (cmdArgs (baseOpts Normal)) (rootDir (baseOpts Normal))
       = Completed mock_output
   \<and> primary_check (baseOpts Normal)
       (expected (output_case\<lparr>warningTodo := True, todo := True\<rparr>)) mock_output = None
   \<and> expected_warnings (output_case\<lparr>warningTodo := True, todo := True\<rparr>)
       = Some [''WARNING: first'', ''WARNING: second'']
   \<and> warnings mock_output \<noteq> [''WARNING: first'', ''WARNING: second'']
   \<and> classification (fst (runSpec (output_case\<lparr>warningTodo := True, todo := True\<rparr>)
                            (baseOpts Normal) 0)) = Todo
   \<and> classification (fst (runSpec (output_case\<lparr>warningTodo := True, todo := True\<rparr>)
                            (baseOpts Normal) 0)) \<noteq> Pass
   \<and> classification (fst (runSpec (output_case\<lparr>warningTodo := True, ignore := True\<rparr>)
                            (baseOpts Normal) 0)) = Skip
   \<and> classification (fst (runSpec (output_case\<lparr>warningTodo := True, ignore := True\<rparr>)
                            (baseOpts RunTodo) 0)) \<noteq> Fail"
  by (simp add: runSpec_def baseOpts_def output_case_def mockCompiler_def mock_output_def)

text \<open>
  C3, amended. For a case with \<open>warningTodo\<close> set and \<open>ignore\<close> not set, whose primary
  check holds and whose warnings differ from the expected list: \<^verbatim>\<open>runSpec\<close> returns pass
  under normal mode when \<open>todo\<close> is not set, and fail under run-todo.
\<close>

theorem warning_todo_policy:
  assumes "warningTodo d" and "\<not> ignore d"
    and "compiler opts (cmdArgs opts) (rootDir opts) = Completed po"
    and "primary_check opts (expected d) po = None"
    and "expected_warnings d = Some ws" and "warnings po \<noteq> ws"
  shows "(todoMode opts = Normal \<and> \<not> todo d \<longrightarrow> classification (fst (runSpec d opts n)) = Pass)
    \<and> (todoMode opts = RunTodo \<longrightarrow> classification (fst (runSpec d opts n)) = Fail)"
  using assms by (cases "todo d") (simp_all add: runSpec_def Let_def)

theorem warning_todo_policy_witness:
  "warningTodo (output_case\<lparr>warningTodo := True\<rparr>)
   \<and> \<not> ignore (output_case\<lparr>warningTodo := True\<rparr>)
   \<and> \<not> todo (output_case\<lparr>warningTodo := True\<rparr>)
   \<and> primary_check (baseOpts Normal) (expected (output_case\<lparr>warningTodo := True\<rparr>)) mock_output
       = None
   \<and> warnings mock_output \<noteq> [''WARNING: first'', ''WARNING: second'']
   \<and> classification (fst (runSpec (output_case\<lparr>warningTodo := True\<rparr>) (baseOpts Normal) 0)) = Pass
   \<and> classification (fst (runSpec (output_case\<lparr>warningTodo := True\<rparr>) (baseOpts RunTodo) 0)) = Fail"
proof -
  have w: "warningTodo (output_case\<lparr>warningTodo := True\<rparr>)" by simp
  have i: "\<not> ignore (output_case\<lparr>warningTodo := True\<rparr>)" by (simp add: output_case_def)
  have t: "\<not> todo (output_case\<lparr>warningTodo := True\<rparr>)" by (simp add: output_case_def)
  have c: "compiler (baseOpts mode) (cmdArgs (baseOpts mode)) (rootDir (baseOpts mode))
             = Completed mock_output" for mode
    by (simp add: baseOpts_def mockCompiler_def)
  have p: "primary_check (baseOpts mode) (expected (output_case\<lparr>warningTodo := True\<rparr>))
             mock_output = None" for mode
    by (simp add: baseOpts_def output_case_def mock_output_def)
  have e: "expected_warnings (output_case\<lparr>warningTodo := True\<rparr>)
             = Some [''WARNING: first'', ''WARNING: second'']"
    by (simp add: output_case_def)
  have m: "warnings mock_output \<noteq> [''WARNING: first'', ''WARNING: second'']"
    by (simp add: mock_output_def)
  from warning_todo_policy [OF w i c p e m, of Normal 0]
       warning_todo_policy [OF w i c p e m, of RunTodo 0]
       w i t p m
  show ?thesis by (simp add: baseOpts_def)
qed

subsection \<open>Expected warnings\<close>

text \<open>
  C4, as stated, fails: a case that specifies an expected warning list and has
  \<open>warningTodo\<close> set passes under normal mode although the emitted warnings are the
  expected ones in another order; with \<open>todo\<close> set instead the same case is todo, and with
  \<open>ignore\<close> set it is skip.
\<close>

theorem warning_mismatch_counterexample:
  "expected_warnings (output_case\<lparr>warningTodo := True\<rparr>)
     = Some [''WARNING: first'', ''WARNING: second'']
   \<and> compiler (baseOpts Normal) (cmdArgs (baseOpts Normal)) (rootDir (baseOpts Normal))
       = Completed mock_output
   \<and> warnings mock_output = [''WARNING: second'', ''WARNING: first'']
   \<and> classification (fst (runSpec (output_case\<lparr>warningTodo := True\<rparr>) (baseOpts Normal) 0)) = Pass
   \<and> classification (fst (runSpec (output_case\<lparr>warningTodo := True\<rparr>) (baseOpts Normal) 0)) \<noteq> Fail
   \<and> classification (fst (runSpec (output_case\<lparr>todo := True\<rparr>) (baseOpts Normal) 0)) = Todo
   \<and> classification (fst (runSpec (output_case\<lparr>ignore := True\<rparr>) (baseOpts Normal) 0)) = Skip"
  by (simp add: runSpec_def baseOpts_def output_case_def mockCompiler_def mock_output_def)

text \<open>
  C4, amended. For a case that specifies an expected warning list, that is not ignored,
  whose warning check is not skipped (\<open>warningTodo\<close> not set, or run-todo mode) and whose
  outcome is not changed by \<open>todo\<close> (\<open>todo\<close> not set, or run-todo mode): when the process
  completes and the emitted warnings are not exactly the expected list, in the same
  order, the outcome is fail, whether or not the primary output or error matched. A
  missing warning, an extraneous warning and another order are all such lists.
\<close>

theorem warning_mismatch_fails:
  assumes "\<not> ignore d"
    and "\<not> warningTodo d \<or> todoMode opts = RunTodo"
    and "\<not> todo d \<or> todoMode opts = RunTodo"
    and "compiler opts (cmdArgs opts) (rootDir opts) = Completed po"
    and "expected_warnings d = Some ws" and "warnings po \<noteq> ws"
  shows "classification (fst (runSpec d opts n)) = Fail"
  using assms
  by (cases "todo d"; cases "warningTodo d"; cases "primary_check opts (expected d) po")
     (auto simp: runSpec_def Let_def)

text \<open>
  The example case with its primary output matched: the expected warnings in another
  order, one of them missing, and one more than expected.
\<close>

theorem warning_mismatch_fails_witness:
  "primary_check (baseOpts Normal) (expected output_case) mock_output = None
   \<and> classification (fst (runSpec output_case (baseOpts Normal) 0)) = Fail
   \<and> classification (fst (runSpec output_case
        ((baseOpts Normal)\<lparr>compiler := mockCompiler (mock_output\<lparr>warnings := [''WARNING: first'']\<rparr>)\<rparr>)
        0)) = Fail
   \<and> classification (fst (runSpec output_case
        ((baseOpts Normal)\<lparr>compiler := mockCompiler (mock_output\<lparr>warnings :=
            [''WARNING: first'', ''WARNING: second'', ''WARNING: third'']\<rparr>)\<rparr>)
        0)) = Fail
   \<and> classification (fst (runSpec output_case
        ((baseOpts Normal)\<lparr>compiler := mockCompiler (mock_output\<lparr>warnings :=
            [''WARNING: first'', ''WARNING: second'']\<rparr>)\<rparr>)
        0)) = Pass"
proof -
  have i: "\<not> ignore output_case" by (simp add: output_case_def)
  have w: "\<not> warningTodo output_case \<or> todoMode opts = RunTodo" for opts
    by (simp add: output_case_def)
  have t: "\<not> todo output_case \<or> todoMode opts = RunTodo" for opts
    by (simp add: output_case_def)
  have c: "compiler ((baseOpts Normal)\<lparr>compiler := mockCompiler po\<rparr>)
             (cmdArgs ((baseOpts Normal)\<lparr>compiler := mockCompiler po\<rparr>))
             (rootDir ((baseOpts Normal)\<lparr>compiler := mockCompiler po\<rparr>)) = Completed po" for po
    by (simp add: mockCompiler_def)
  have c0: "compiler (baseOpts Normal) (cmdArgs (baseOpts Normal)) (rootDir (baseOpts Normal))
              = Completed mock_output"
    by (simp add: baseOpts_def mockCompiler_def)
  have e: "expected_warnings output_case = Some [''WARNING: first'', ''WARNING: second'']"
    by (simp add: output_case_def)
  have m0: "warnings mock_output \<noteq> [''WARNING: first'', ''WARNING: second'']"
    by (simp add: mock_output_def)
  have m1: "warnings (mock_output\<lparr>warnings := [''WARNING: first'']\<rparr>)
              \<noteq> [''WARNING: first'', ''WARNING: second'']"
    by simp
  have m2: "warnings (mock_output\<lparr>warnings :=
              [''WARNING: first'', ''WARNING: second'', ''WARNING: third'']\<rparr>)
              \<noteq> [''WARNING: first'', ''WARNING: second'']"
    by simp
  have p: "primary_check (baseOpts Normal) (expected output_case) mock_output = None"
    by (simp add: baseOpts_def output_case_def mock_output_def)
  have ok: "classification (fst (runSpec output_case
        ((baseOpts Normal)\<lparr>compiler := mockCompiler (mock_output\<lparr>warnings :=
            [''WARNING: first'', ''WARNING: second'']\<rparr>)\<rparr>)
        0)) = Pass"
    by (simp add: runSpec_def baseOpts_def output_case_def mockCompiler_def mock_output_def)
  from warning_mismatch_fails [OF i w t c0 e m0, of 0]
       warning_mismatch_fails [OF i w t c e m1, of 0]
       warning_mismatch_fails [OF i w t c e m2, of 0]
       p ok
  show ?thesis by simp
qed

subsection \<open>Materialization and cleanup\<close>

lemma fold_frame:
  "(\<And>x s. x \<in> set xs \<Longrightarrow> f x s q = s q) \<Longrightarrow> fold f xs s q = s q"
  by (induction xs arbitrary: s) simp_all

text \<open>Materializing at a path changes nothing outside the subtree of that path.\<close>

lemma materialize_frame:
  "\<not> prefix at q \<Longrightarrow> materialize at e fs q = fs q"
proof (induction at e fs rule: materialize.induct)
  case (1 at n c fs)
  then show ?case by auto
next
  case (2 at n cs fs)
  have "at \<noteq> q" using "2.prems" by auto
  have step: "materialize (at @ [entry_name ch]) ch s q = s q" if "ch \<in> set cs" for ch s
  proof -
    have "\<not> prefix (at @ [entry_name ch]) q"
      using "2.prems" by (meson prefix_order.trans prefixI)
    with "2.IH" [OF that] show ?thesis .
  qed
  have "fold (\<lambda>ch. materialize (at @ [entry_name ch]) ch) cs (fs(at \<mapsto> DirNode)) q
          = (fs(at \<mapsto> DirNode)) q"
    by (rule fold_frame) (rule step)
  with \<open>at \<noteq> q\<close> show ?case by simp
qed

text \<open>
  Among children with distinct names, a file that one child stores is still there after
  all children are written.
\<close>

lemma fold_children_file:
  assumes "distinct (map entry_name cs)" and "ch \<in> set cs"
    and "\<And>s. materialize (at @ [entry_name ch]) ch s (at @ entry_name ch # p) = Some (FileNode c)"
  shows "fold (\<lambda>x. materialize (at @ [entry_name x]) x) cs s (at @ entry_name ch # p)
           = Some (FileNode c)"
  using assms(1,2)
proof (induction cs arbitrary: s)
  case Nil
  then show ?case by simp
next
  case (Cons x xs)
  show ?case
  proof (cases "ch \<in> set xs")
    case True
    with Cons show ?thesis by simp
  next
    case False
    with Cons.prems have "x = ch" by simp
    with Cons.prems(1) have fresh: "entry_name ch \<notin> set (map entry_name xs)" by simp
    have other: "materialize (at @ [entry_name y]) y s' (at @ entry_name ch # p)
                   = s' (at @ entry_name ch # p)" if "y \<in> set xs" for y s'
    proof -
      from that have "entry_name y \<in> set (map entry_name xs)" by simp
      with fresh have "entry_name y \<noteq> entry_name ch" by metis
      then have "\<not> prefix (at @ [entry_name y]) (at @ entry_name ch # p)" by simp
      then show ?thesis by (rule materialize_frame)
    qed
    have "fold (\<lambda>x. materialize (at @ [entry_name x]) x) xs
            (materialize (at @ [entry_name ch]) ch s) (at @ entry_name ch # p)
          = materialize (at @ [entry_name ch]) ch s (at @ entry_name ch # p)"
      by (rule fold_frame) (rule other)
    with assms(3) \<open>x = ch\<close> show ?thesis by simp
  qed
qed

lemma materialize_files:
  "unique_names e \<Longrightarrow> (p, c) \<in> set (files e) \<Longrightarrow>
     materialize at e fs (at @ p) = Some (FileNode c)"
proof (induction e arbitrary: at fs p)
  case (File n b)
  then show ?case by simp
next
  case (Directory n cs)
  from Directory.prems(2) obtain ch p' where ch: "ch \<in> set cs" and p: "p = entry_name ch # p'"
    and f: "(p', c) \<in> set (files ch)"
    by auto
  from Directory.prems(1) ch have u: "unique_names ch" and d: "distinct (map entry_name cs)"
    by (auto simp: list_all_iff)
  have "materialize (at @ [entry_name ch]) ch s (at @ entry_name ch # p') = Some (FileNode c)" for s
    using Directory.IH [OF ch u f, of "at @ [entry_name ch]" s] by simp
  with d ch have "fold (\<lambda>x. materialize (at @ [entry_name x]) x) cs (fs(at \<mapsto> DirNode))
        (at @ entry_name ch # p') = Some (FileNode c)"
    by (rule fold_children_file)
  with p show ?case by simp
qed

text \<open>
  C5. Writing an archive subtree (with unique child names in every directory) to disk and
  reading back each of its files gives the file's byte content; cleanup then succeeds and
  leaves nothing at the location or below it; and a second cleanup of the same handle
  succeeds as well and changes nothing.
\<close>

theorem materialize_roundtrip_cleanup:
  assumes "unique_names entry" and "writeToDisk entry location fs = (h, fs1)"
  shows "(\<forall>(p, c) \<in> set (files entry). readFile (root h @ p) fs1 = Inr c)
    \<and> (\<exists>fs2. cleanup h fs1 = Inr fs2
          \<and> \<not> exists_on_disk location fs2
          \<and> (\<forall>p. prefix location p \<longrightarrow> \<not> exists_on_disk p fs2)
          \<and> cleanup h fs2 = Inr fs2)"
proof -
  from assms(2) have h: "root h = location" and fs1: "fs1 = materialize location entry fs"
    by (auto simp: writeToDisk_def)
  let ?fs2 = "\<lambda>p. if prefix location p then None else fs1 p"
  have readback: "readFile (root h @ p) fs1 = Inr c" if "(p, c) \<in> set (files entry)" for p c
    using materialize_files [OF assms(1) that, of location fs]
    by (simp add: readFile_def h fs1)
  have c1: "cleanup h fs1 = Inr ?fs2"
    by (simp add: cleanup_def h)
  have gone: "\<not> exists_on_disk p ?fs2" if "prefix location p" for p
    using that by (simp add: exists_on_disk_def)
  have c2: "cleanup h ?fs2 = Inr ?fs2"
    by (simp add: cleanup_def h fun_eq_iff)
  from gone have "\<not> exists_on_disk location ?fs2" by simp
  with c1 c2 gone have "\<exists>fs2. cleanup h fs1 = Inr fs2
          \<and> \<not> exists_on_disk location fs2
          \<and> (\<forall>p. prefix location p \<longrightarrow> \<not> exists_on_disk p fs2)
          \<and> cleanup h fs2 = Inr fs2"
    by blast
  with readback show ?thesis by blast
qed

text \<open>
  The example archive written to a disk that already holds a stale file at the location.
\<close>

theorem materialize_roundtrip_cleanup_witness:
  "unique_names archive_example
   \<and> readFile (temp_location @ [''todo'', ''output.css''])
        (snd (writeToDisk archive_example temp_location disk_example)) = Inr ''a {b: c}''
   \<and> (\<exists>fs2. cleanup (fst (writeToDisk archive_example temp_location disk_example))
               (snd (writeToDisk archive_example temp_location disk_example)) = Inr fs2
          \<and> \<not> exists_on_disk temp_location fs2
          \<and> cleanup (fst (writeToDisk archive_example temp_location disk_example)) fs2 = Inr fs2)"
proof -
  have u: "unique_names archive_example"
    by (simp add: archive_example_def)
  have f: "([''todo'', ''output.css''], ''a {b: c}'') \<in> set (files archive_example)"
    by (simp add: archive_example_def)
  have r: "root (fst (writeToDisk archive_example temp_location disk_example)) = temp_location"
    by (simp add: writeToDisk_def)
  from materialize_roundtrip_cleanup [OF u prod.collapse [symmetric], of temp_location disk_example]
    u f r show ?thesis by fastforce
qed

end
